theory Spec2Isabelle
  imports Complex_Main
begin

section \<open>The collaborators of the type descriptor\<close>

text \<open>
  \<^verbatim>\<open>exact_type.go\<close> defines \<^verbatim>\<open>ExactType\<close>, the attribute type of strings holding
  syntactically valid JSON, compared byte for byte. Its four operations (\<^verbatim>\<open>Equal\<close>,
  \<^verbatim>\<open>Validate\<close>, \<^verbatim>\<open>ValueFromString\<close>, \<^verbatim>\<open>ValueFromTerraform\<close>) are embedded below from
  the source. The packages it imports (\<^verbatim>\<open>tftypes\<close>, \<^verbatim>\<open>basetypes\<close>, \<^verbatim>\<open>diag\<close>, \<^verbatim>\<open>path\<close>,
  \<^verbatim>\<open>encoding/json\<close>, \<^verbatim>\<open>fmt\<close>) are not part of the file: their data is modelled from the
  specification's data model, and the functions the operations call in them
  (\<^verbatim>\<open>json.Valid\<close>, \<^verbatim>\<open>Value.As\<close>, \<^verbatim>\<open>err.Error\<close>, \<^verbatim>\<open>StringType.Equal\<close>,
  \<^verbatim>\<open>StringType.ValueFromTerraform\<close>) are parameters of the operations. Each parameter has
  an instance modelled from the specification, at which the properties are evaluated on
  concrete inputs.
\<close>

subsection \<open>Wire values\<close>

text \<open>
  Modelled from the spec: the type tag of a wire value (\<^verbatim>\<open>tftypes.Type\<close>), absent from the
  source file. The string primitive is \<open>String\<close>; numbers, lists and the other kinds
  are the types a wire value may declare instead.
\<close>

datatype Type =
    String
  | Number
  | Bool
  | DynamicPseudoType
  | List Type
  | Set Type
  | Map Type
  | Tuple "Type list"
  | Object "(string \<times> Type) list"

text \<open>
  Modelled from the spec: the raw data of a wire value, absent from the source file.
  A wire value is unknown, null, or carries data; \<open>unknown\<close> and \<open>nil\<close> are the two
  flags, the other constructors are data.
\<close>

datatype raw =
    unknown
  | nil
  | str string
  | num rat
  | boolean bool
  | elems "raw list"
  | attrs "(string \<times> raw) list"

text \<open>
  Modelled from the spec: the wire value (\<^verbatim>\<open>tftypes.Value\<close>), absent from the source
  file: a type tag (absent when the value carries no type information at all) and the
  raw data. The fields are \<^verbatim>\<open>typ\<close> and \<^verbatim>\<open>value\<close> in Go.
\<close>

record Value =
  typ' :: "Type option"
  value' :: raw

text \<open>Modelled from the spec: \<^verbatim>\<open>Type.Is\<close>, whether a declared type is the given one.\<close>

definition Is :: "Type \<Rightarrow> Type \<Rightarrow> bool" where
  "Is t u = (t = u)"

text \<open>Modelled from the spec: the known/unknown flag and the null flag of a wire value.\<close>

definition IsKnown :: "Value \<Rightarrow> bool" where
  "IsKnown v = (value' v \<noteq> unknown)"

definition IsNull :: "Value \<Rightarrow> bool" where
  "IsNull v = (value' v = nil)"

subsection \<open>Paths and diagnostics\<close>

text \<open>
  Modelled from the spec: a path locating a value in the configuration tree
  (\<^verbatim>\<open>path.Path\<close>), used only to attribute diagnostics.
\<close>

datatype PathStep =
    PathStepAttributeName string
  | PathStepElementKeyInt int
  | PathStepElementKeyString string

type_synonym Path = "PathStep list"

text \<open>
  Modelled from the spec: the diagnostics container (\<^verbatim>\<open>diag.Diagnostics\<close>), an ordered
  collection of path-scoped entries with a severity, a category label (the summary) and
  a free-text message (the detail).
\<close>

datatype Severity = SeverityError | SeverityWarning

record Diagnostic =
  severity :: Severity
  summary :: string
  detail :: string
  path' :: "Path option"

type_synonym Diagnostics = "Diagnostic list"

definition NewAttributeErrorDiagnostic :: "Path \<Rightarrow> string \<Rightarrow> string \<Rightarrow> Diagnostic" where
  "NewAttributeErrorDiagnostic p s d =
     \<lparr>severity = SeverityError, summary = s, detail = d, path' = Some p\<rparr>"

definition AddAttributeError :: "Diagnostics \<Rightarrow> Path \<Rightarrow> string \<Rightarrow> string \<Rightarrow> Diagnostics" where
  "AddAttributeError diags p s d = diags @ [NewAttributeErrorDiagnostic p s d]"

fun HasError :: "Diagnostics \<Rightarrow> bool" where
  "HasError [] = False"
| "HasError (d # ds) = (if severity d = SeverityError then True else HasError ds)"

subsection \<open>Generic string type and values\<close>

text \<open>
  Modelled from the spec: the generic string-type descriptor (\<^verbatim>\<open>basetypes.StringType\<close>)
  is stateless and carries no parameters; the generic string value
  (\<^verbatim>\<open>basetypes.StringValue\<close>) carries a payload that is a concrete string, an explicit
  null, or unknown.
\<close>

type_synonym StringType = unit

datatype StringValue =
    NewStringNull
  | NewStringUnknown
  | NewStringValue string

text \<open>\<^verbatim>\<open>type ExactType struct { basetypes.StringType }\<close>\<close>

record ExactType =
  StringType :: StringType

text \<open>
  The value holder \<^verbatim>\<open>Exact\<close> embeds a generic string value (the source builds it as
  \<^verbatim>\<open>Exact{StringValue: in}\<close>).
\<close>

record Exact =
  StringValue :: StringValue

text \<open>
  The interface \<^verbatim>\<open>attr.Type\<close> holds a type descriptor of any kind: this one, the
  generic string type, another custom type on the same base primitive
  (\<^verbatim>\<open>NormalizedType\<close>), or an unrelated one, given by its Go type name.
\<close>

datatype attr_Type =
    ExactType_t ExactType
  | StringType_t StringType
  | NormalizedType_t StringType
  | other_t string

text \<open>
  The interfaces \<^verbatim>\<open>attr.Value\<close> and \<^verbatim>\<open>basetypes.StringValuable\<close> hold a value of any kind:
  a generic string value, the value holder of this type, or another kind given by its Go
  type name.
\<close>

datatype attr_Value =
    StringValue_v StringValue
  | Exact_v Exact
  | other_v string

text \<open>
  Modelled from the spec: equality of the generic string-type descriptor
  (\<^verbatim>\<open>StringType.Equal\<close>), absent from the source file: by kind, since the descriptor
  carries no parameters. \<open>Equal\<close> takes it as its parameter \<open>base_Equal\<close>.
\<close>

definition StringType_Equal :: "StringType \<Rightarrow> attr_Type \<Rightarrow> bool" where
  "StringType_Equal t other = (case other of StringType_t _ \<Rightarrow> True | _ \<Rightarrow> False)"

subsection \<open>Errors\<close>

text \<open>
  An error is built by \<^verbatim>\<open>fmt.Errorf\<close> from a format string and its arguments, or is the
  failure of extracting a string from the raw data of a wire value. How an error prints
  (\<^verbatim>\<open>err.Error()\<close>) is decided by \<^verbatim>\<open>fmt\<close> and the \<^verbatim>\<open>String\<close> methods of the arguments,
  none of them in the source file: the text is a parameter \<open>Error\<close> of \<open>Validate\<close>.
\<close>

datatype fmt_arg =
    arg_Value Value
  | arg_attr_Value "attr_Value option"
  | arg_Diagnostics Diagnostics

datatype error =
    Errorf string "fmt_arg list"
  | extraction_failure Value

text \<open>
  An instance of \<open>Error\<close> for the examples: the format string with its verbs left in
  place.
\<close>

definition unexpanded :: "error \<Rightarrow> string" where
  "unexpanded e =
     (case e of Errorf f args \<Rightarrow> f | extraction_failure v \<Rightarrow> ''string extraction failed'')"

text \<open>
  Modelled from the spec: extracting the concrete string payload of a wire value
  (\<^verbatim>\<open>Value.As\<close> with a string target), absent from the source file. It fails
  structurally on an unknown value and on data that is not a string; a null value gives
  the empty string. \<open>Validate\<close> takes the extraction as its parameter \<open>As\<close>.
\<close>

definition Value_As :: "Value \<Rightarrow> error + string" where
  "Value_As v =
     (if \<not> IsKnown v then Inl (extraction_failure v)
      else if IsNull v then Inr ''''
      else case value' v of str s \<Rightarrow> Inr s | _ \<Rightarrow> Inl (extraction_failure v))"

text \<open>
  Modelled from the spec: the generic string type's own wire-to-value conversion
  (\<^verbatim>\<open>StringType.ValueFromTerraform\<close>), absent from the source file: an unknown wire value
  becomes the unknown string value, a null one the null string value, a concrete string
  the string value holding exactly that string, and a failed extraction is a decoding
  error with no value. \<open>ValueFromTerraform\<close> takes the conversion as its parameter
  \<open>base\<close>.
\<close>

definition StringType_ValueFromTerraform ::
    "StringType \<Rightarrow> Value \<Rightarrow> attr_Value option \<times> error option" where
  "StringType_ValueFromTerraform t inp =
     (if \<not> IsKnown inp then (Some (StringValue_v NewStringUnknown), None)
      else if IsNull inp then (Some (StringValue_v NewStringNull), None)
      else case Value_As inp of
             Inl err \<Rightarrow> (None, Some err)
           | Inr s \<Rightarrow> (Some (StringValue_v (NewStringValue s)), None))"

subsection \<open>JSON syntax\<close>

text \<open>
  Modelled from the spec: the standard JSON-syntax validity check (\<^verbatim>\<open>json.Valid\<close> of the
  standard library, absent from the source file), a boolean on a byte sequence for the
  RFC 7159 grammar: balanced structure, valid literals, proper string escaping, no
  trailing garbage. \<open>Validate\<close> takes the check as its parameter \<open>valid\<close>; this one is
  the instance of the examples.

  It is a byte-wise scanner. Its state is the step expected next and the stack of the open
  objects and arrays, innermost first; \<open>None\<close> is a syntax error. Inside a string every
  byte from \<open>0x20\<close> up is taken as it is, so the encoding of the text is not checked.
\<close>

datatype step =
    stateBeginValueOrEmpty | stateBeginValue | stateBeginStringOrEmpty | stateBeginString
  | stateEndValue | stateEndTop
  | stateInString | stateInStringEsc | stateInStringEscU | stateInStringEscU1
  | stateInStringEscU12 | stateInStringEscU123
  | stateNeg | state1 | state0 | stateDot | stateDot0 | stateE | stateESign | stateE0
  | stateT | stateTr | stateTru | stateF | stateFa | stateFal | stateFals
  | stateN | stateNu | stateNul

datatype parse_state = parseObjectKey | parseObjectValue | parseArrayValue

type_synonym scanner = "step \<times> parse_state list"

text \<open>The character classes of the grammar: white space, digits, hexadecimal digits.\<close>

definition isSpace :: "char \<Rightarrow> bool" where
  "isSpace c = (c = CHR '' '' \<or> c = CHR 0x09 \<or> c = CHR 0x0D \<or> c = CHR 0x0A)"

definition isDigit :: "char \<Rightarrow> bool" where
  "isDigit c = (c \<in> set ''0123456789'')"

definition isHex :: "char \<Rightarrow> bool" where
  "isHex c = (c \<in> set ''0123456789abcdefABCDEF'')"

text \<open>
  After a value: closing the innermost object or array ends the text when the stack
  becomes empty; after the top-level value only white space may follow.
\<close>

definition popParseState :: "parse_state list \<Rightarrow> scanner" where
  "popParseState ps = (case tl ps of [] \<Rightarrow> (stateEndTop, []) | ps' \<Rightarrow> (stateEndValue, ps'))"

definition endTop :: "char \<Rightarrow> scanner option" where
  "endTop c = (if isSpace c then Some (stateEndTop, []) else None)"

definition endValue :: "parse_state list \<Rightarrow> char \<Rightarrow> scanner option" where
  "endValue ps c =
     (case ps of
        [] \<Rightarrow> endTop c
      | p # ps' \<Rightarrow>
          if isSpace c then Some (stateEndValue, ps)
          else (case p of
                  parseObjectKey \<Rightarrow>
                    if c = CHR '':'' then Some (stateBeginValue, parseObjectValue # ps') else None
                | parseObjectValue \<Rightarrow>
                    if c = CHR '','' then Some (stateBeginString, parseObjectKey # ps')
                    else if c = CHR ''}'' then Some (popParseState ps)
                    else None
                | parseArrayValue \<Rightarrow>
                    if c = CHR '','' then Some (stateBeginValue, ps)
                    else if c = CHR '']'' then Some (popParseState ps)
                    else None))"

text \<open>The first byte of a value, and of an object key.\<close>

definition beginValue :: "parse_state list \<Rightarrow> char \<Rightarrow> scanner option" where
  \<open>beginValue ps c =
     (if isSpace c then Some (stateBeginValue, ps)
      else if c = CHR ''{'' then Some (stateBeginStringOrEmpty, parseObjectKey # ps)
      else if c = CHR ''['' then Some (stateBeginValueOrEmpty, parseArrayValue # ps)
      else if c = CHR ''"'' then Some (stateInString, ps)
      else if c = CHR ''-'' then Some (stateNeg, ps)
      else if c = CHR ''0'' then Some (state0, ps)
      else if c = CHR ''t'' then Some (stateT, ps)
      else if c = CHR ''f'' then Some (stateF, ps)
      else if c = CHR ''n'' then Some (stateN, ps)
      else if isDigit c then Some (state1, ps)
      else None)\<close>

definition beginString :: "parse_state list \<Rightarrow> char \<Rightarrow> scanner option" where
  \<open>beginString ps c =
     (if isSpace c then Some (stateBeginString, ps)
      else if c = CHR ''"'' then Some (stateInString, ps)
      else None)\<close>

text \<open>The next letter of a literal; the tail of a number after its integer part.\<close>

definition expect :: "char \<Rightarrow> step \<Rightarrow> parse_state list \<Rightarrow> char \<Rightarrow> scanner option" where
  "expect want next ps c = (if c = want then Some (next, ps) else None)"

definition number0 :: "parse_state list \<Rightarrow> char \<Rightarrow> scanner option" where
  "number0 ps c =
     (if c = CHR ''.'' then Some (stateDot, ps)
      else if c = CHR ''e'' \<or> c = CHR ''E'' then Some (stateE, ps)
      else endValue ps c)"

definition numberESign :: "parse_state list \<Rightarrow> char \<Rightarrow> scanner option" where
  "numberESign ps c = (if isDigit c then Some (stateE0, ps) else None)"

text \<open>One byte in each step state.\<close>

fun scan_step :: "scanner \<Rightarrow> char \<Rightarrow> scanner option" where
  "scan_step (stateBeginValueOrEmpty, ps) c =
     (if isSpace c then Some (stateBeginValueOrEmpty, ps)
      else if c = CHR '']'' then endValue ps c
      else beginValue ps c)"
| "scan_step (stateBeginValue, ps) c = beginValue ps c"
| "scan_step (stateBeginStringOrEmpty, ps) c =
     (if isSpace c then Some (stateBeginStringOrEmpty, ps)
      else if c = CHR ''}'' then endValue (parseObjectValue # tl ps) c
      else beginString ps c)"
| "scan_step (stateBeginString, ps) c = beginString ps c"
| "scan_step (stateEndValue, ps) c = endValue ps c"
| "scan_step (stateEndTop, ps) c = endTop c"
| \<open>scan_step (stateInString, ps) c =
     (if c = CHR ''"'' then Some (stateEndValue, ps)
      else if c = CHR 0x5C then Some (stateInStringEsc, ps)
      else if of_char c < (0x20 :: nat) then None
      else Some (stateInString, ps))\<close>
| \<open>scan_step (stateInStringEsc, ps) c =
     (if c \<in> set [CHR ''b'', CHR ''f'', CHR ''n'', CHR ''r'', CHR ''t'', CHR 0x5C, CHR ''/'', CHR ''"'']
      then Some (stateInString, ps)
      else if c = CHR ''u'' then Some (stateInStringEscU, ps)
      else None)\<close>
| "scan_step (stateInStringEscU, ps) c = (if isHex c then Some (stateInStringEscU1, ps) else None)"
| "scan_step (stateInStringEscU1, ps) c = (if isHex c then Some (stateInStringEscU12, ps) else None)"
| "scan_step (stateInStringEscU12, ps) c = (if isHex c then Some (stateInStringEscU123, ps) else None)"
| "scan_step (stateInStringEscU123, ps) c = (if isHex c then Some (stateInString, ps) else None)"
| "scan_step (stateNeg, ps) c =
     (if c = CHR ''0'' then Some (state0, ps)
      else if isDigit c then Some (state1, ps)
      else None)"
| "scan_step (state1, ps) c =
     (if isDigit c then Some (state1, ps) else number0 ps c)"
| "scan_step (state0, ps) c = number0 ps c"
| "scan_step (stateDot, ps) c = (if isDigit c then Some (stateDot0, ps) else None)"
| "scan_step (stateDot0, ps) c =
     (if isDigit c then Some (stateDot0, ps)
      else if c = CHR ''e'' \<or> c = CHR ''E'' then Some (stateE, ps)
      else endValue ps c)"
| "scan_step (stateE, ps) c =
     (if c = CHR ''+'' \<or> c = CHR ''-'' then Some (stateESign, ps)
      else numberESign ps c)"
| "scan_step (stateESign, ps) c = numberESign ps c"
| "scan_step (stateE0, ps) c = (if isDigit c then Some (stateE0, ps) else endValue ps c)"
| "scan_step (stateT, ps) c = expect CHR ''r'' stateTr ps c"
| "scan_step (stateTr, ps) c = expect CHR ''u'' stateTru ps c"
| "scan_step (stateTru, ps) c = expect CHR ''e'' stateEndValue ps c"
| "scan_step (stateF, ps) c = expect CHR ''a'' stateFa ps c"
| "scan_step (stateFa, ps) c = expect CHR ''l'' stateFal ps c"
| "scan_step (stateFal, ps) c = expect CHR ''s'' stateFals ps c"
| "scan_step (stateFals, ps) c = expect CHR ''e'' stateEndValue ps c"
| "scan_step (stateN, ps) c = expect CHR ''u'' stateNu ps c"
| "scan_step (stateNu, ps) c = expect CHR ''l'' stateNul ps c"
| "scan_step (stateNul, ps) c = expect CHR ''l'' stateEndValue ps c"

text \<open>
  The whole text: every byte must be accepted, and at the end the top-level value must be
  complete, which a number is only once a byte after it has been seen (a space is fed).
\<close>

fun checkValid :: "scanner \<Rightarrow> string \<Rightarrow> bool" where
  "checkValid s [] =
     (if fst s = stateEndTop then True
      else case scan_step s CHR '' '' of None \<Rightarrow> False | Some s' \<Rightarrow> fst s' = stateEndTop)"
| "checkValid s (c # cs) =
     (case scan_step s c of None \<Rightarrow> False | Some s' \<Rightarrow> checkValid s' cs)"

definition json_Valid :: "string \<Rightarrow> bool" where
  "json_Valid data = checkValid (stateBeginValue, []) data"

section \<open>The type descriptor\<close>

text \<open>\<^verbatim>\<open>func (t ExactType) String() string\<close>\<close>

definition String' :: "ExactType \<Rightarrow> string" where
  "String' t = ''jsontypes.ExactType''"

text \<open>
  \<^verbatim>\<open>func (t ExactType) Equal(o attr.Type) bool\<close>: the type assertion
  \<^verbatim>\<open>o.(ExactType)\<close> fails for every other kind, and the embedded descriptors are compared
  by \<open>base_Equal\<close>, which is \<^verbatim>\<open>t.StringType.Equal\<close>.
\<close>

definition Equal :: "(StringType \<Rightarrow> attr_Type \<Rightarrow> bool) \<Rightarrow> ExactType \<Rightarrow> attr_Type \<Rightarrow> bool" where
  "Equal base_Equal t other =
     (case other of
        ExactType_t other' \<Rightarrow> base_Equal (StringType t) (StringType_t (StringType other'))
      | _ \<Rightarrow> False)"

text \<open>
  \<^verbatim>\<open>func (t ExactType) Validate(ctx, in tftypes.Value, path path.Path) diag.Diagnostics\<close>.
  \<open>valid\<close> is \<^verbatim>\<open>json.Valid\<close> of \<^verbatim>\<open>encoding/json\<close>, \<open>Error\<close> the text of an error and \<open>As\<close> the
  extraction \<^verbatim>\<open>in.As(&valueString)\<close>.
  The verb \<^verbatim>\<open>%T\<close> and the verb \<^verbatim>\<open>%v\<close> are both given the wire value \<^verbatim>\<open>in\<close>.
\<close>

definition provider_error_detail :: string where
  "provider_error_detail =
     ''An unexpected error was encountered trying to validate an attribute value. This is always an error in the provider. '' @
     ''Please report the following to the provider developer:\<newline>\<newline>''"

definition Validate ::
    "(string \<Rightarrow> bool) \<Rightarrow> (error \<Rightarrow> string) \<Rightarrow> (Value \<Rightarrow> error + string) \<Rightarrow>
     ExactType \<Rightarrow> Value \<Rightarrow> Path \<Rightarrow> Diagnostics" where
  "Validate valid Error As t inp path =
     (let diags = [] in
      case typ' inp of
        None \<Rightarrow> diags
      | Some ty \<Rightarrow>
          if \<not> Is ty String then
            (let err = Errorf ''expected String value, received %T with value: %v''
                         [arg_Value inp, arg_Value inp]
             in AddAttributeError diags path
                  ''JSON Exact Type Validation Error''
                  (provider_error_detail @ Error err))
          else if \<not> IsKnown inp \<or> IsNull inp then diags
          else
            (case As inp of
               Inl err \<Rightarrow>
                 AddAttributeError diags path
                   ''JSON Exact Type Validation Error''
                   (provider_error_detail @ Error err)
             | Inr valueString \<Rightarrow>
                 if \<not> valid valueString then
                   AddAttributeError diags path
                     ''Invalid JSON String Value''
                     (''A string value was provided that is not valid JSON string format (RFC 7159).\<newline>\<newline>'' @
                      ''Given Value: '' @ valueString @ ''\<newline>'')
                 else diags))"

text \<open>
  \<^verbatim>\<open>func (t ExactType) ValueFromString(ctx, in basetypes.StringValue)
  (basetypes.StringValuable, diag.Diagnostics)\<close>: the diagnostics returned are \<^verbatim>\<open>nil\<close>.
\<close>

definition ValueFromString :: "ExactType \<Rightarrow> StringValue \<Rightarrow> attr_Value \<times> Diagnostics" where
  "ValueFromString t inp = (Exact_v \<lparr>StringValue = inp\<rparr>, [])"

text \<open>
  \<^verbatim>\<open>func (t ExactType) ValueFromTerraform(ctx, in tftypes.Value) (attr.Value, error)\<close>.
  \<open>base\<close> is \<^verbatim>\<open>t.StringType.ValueFromTerraform\<close>; a Go result \<^verbatim>\<open>(v, err)\<close> is a pair of
  options, \<open>None\<close> for \<^verbatim>\<open>nil\<close>.
\<close>

definition ValueFromTerraform ::
    "(StringType \<Rightarrow> Value \<Rightarrow> attr_Value option \<times> error option) \<Rightarrow>
     ExactType \<Rightarrow> Value \<Rightarrow> attr_Value option \<times> error option" where
  "ValueFromTerraform base t inp =
     (case base (StringType t) inp of
        (attrValue, Some err) \<Rightarrow> (None, Some err)
      | (attrValue, None) \<Rightarrow>
          (case attrValue of
             Some (StringValue_v stringValue) \<Rightarrow>
               (case ValueFromString t stringValue of
                  (stringValuable, diags) \<Rightarrow>
                    if HasError diags then
                      (None, Some (Errorf ''unexpected error converting StringValue to StringValuable: %v''
                                     [arg_Diagnostics diags]))
                    else (Some stringValuable, None))
           | _ \<Rightarrow> (None, Some (Errorf ''unexpected value type of %T'' [arg_attr_Value attrValue]))))"

text \<open>
  Modelled from the spec: reading the string back from a generic string value (the
  string-data access of the value holder): the payload of a concrete string.
\<close>

fun ValueString :: "StringValue \<Rightarrow> string" where
  "ValueString (NewStringValue s) = s"
| "ValueString _ = ''''"

section \<open>Properties\<close>

subsection \<open>Wire values holding a string\<close>

text \<open>
  With the extraction as modelled, a wire value whose raw data is the string \<open>s\<close> is
  known, not null, and yields \<open>s\<close>: the preconditions of the validation properties
  describe exactly such values when the declared type is the string primitive.
\<close>

lemma wire_string_extracts:
  "IsKnown \<lparr>typ' = ty, value' = str s\<rparr> \<and> \<not> IsNull \<lparr>typ' = ty, value' = str s\<rparr> \<and>
   Value_As \<lparr>typ' = ty, value' = str s\<rparr> = Inr s"
  by (simp add: IsKnown_def IsNull_def Value_As_def)

subsection \<open>Validation\<close>

text \<open>
  C1. For every string \<open>s\<close> that the JSON-syntax check accepts, validating a known,
  non-null wire value of string type from which the extraction gives \<open>s\<close> returns an
  empty diagnostics collection, at any path.
\<close>

theorem Validate_valid_json:
  assumes "typ' inp = Some String" and "IsKnown inp" and "\<not> IsNull inp"
    and "As inp = Inr s" and "valid s"
  shows "Validate valid Error As t inp path = []"
  using assms by (simp add: Validate_def Is_def)

text \<open>
  The scenario of the specification: the wire string \<^verbatim>\<open>{"a":1,"b":[2,3]}\<close> passes the
  scanner and validates with no diagnostics.
\<close>

theorem Validate_valid_json_witness:
  \<open>typ' \<lparr>typ' = Some String, value' = str ''{"a":1,"b":[2,3]}''\<rparr> = Some String \<and>
   IsKnown \<lparr>typ' = Some String, value' = str ''{"a":1,"b":[2,3]}''\<rparr> \<and>
   \<not> IsNull \<lparr>typ' = Some String, value' = str ''{"a":1,"b":[2,3]}''\<rparr> \<and>
   Value_As \<lparr>typ' = Some String, value' = str ''{"a":1,"b":[2,3]}''\<rparr> = Inr ''{"a":1,"b":[2,3]}'' \<and>
   json_Valid ''{"a":1,"b":[2,3]}'' \<and>
   Validate json_Valid unexpanded Value_As \<lparr>StringType = ()\<rparr>
     \<lparr>typ' = Some String, value' = str ''{"a":1,"b":[2,3]}''\<rparr>
     [PathStepAttributeName ''body''] = []\<close>
proof -
  let ?v = \<open>\<lparr>typ' = Some String, value' = str ''{"a":1,"b":[2,3]}''\<rparr>\<close>
  have h1: "typ' ?v = Some String" by simp
  have h2: "IsKnown ?v" by (simp add: IsKnown_def)
  have h3: "\<not> IsNull ?v" by (simp add: IsNull_def)
  have h4: \<open>Value_As ?v = Inr ''{"a":1,"b":[2,3]}''\<close>
    by (simp add: Value_As_def IsKnown_def IsNull_def)
  have h5: \<open>json_Valid ''{"a":1,"b":[2,3]}''\<close> by code_simp
  from Validate_valid_json [where valid = json_Valid and As = Value_As and inp = ?v,
      OF h1 h2 h3 h4 h5] h1 h2 h3 h4 h5
  show ?thesis by blast
qed

text \<open>
  C2. For every string \<open>s\<close> that the JSON-syntax check rejects, validating a known,
  non-null wire value of string type from which the extraction gives \<open>s\<close> returns
  exactly one diagnostic: an error with the summary \<^verbatim>\<open>Invalid JSON String Value\<close>, at the
  given path, whose detail contains \<open>s\<close> verbatim after \<^verbatim>\<open>Given Value: \<close>.
\<close>

theorem Validate_invalid_json:
  assumes "typ' inp = Some String" and "IsKnown inp" and "\<not> IsNull inp"
    and "As inp = Inr s" and "\<not> valid s"
  shows "Validate valid Error As t inp path =
           [\<lparr>severity = SeverityError,
             summary = ''Invalid JSON String Value'',
             detail = ''A string value was provided that is not valid JSON string format (RFC 7159).\<newline>\<newline>'' @
                      ''Given Value: '' @ s @ ''\<newline>'',
             path' = Some path\<rparr>]"
  using assms
  by (simp add: Validate_def Is_def AddAttributeError_def NewAttributeErrorDiagnostic_def)

text \<open>
  The scenario of the specification: the wire string \<^verbatim>\<open>{a:1}\<close> (an unquoted key) is
  rejected by the scanner and gives the one diagnostic, quoting \<^verbatim>\<open>{a:1}\<close>.
\<close>

theorem Validate_invalid_json_witness:
  \<open>typ' \<lparr>typ' = Some String, value' = str ''{a:1}''\<rparr> = Some String \<and>
   IsKnown \<lparr>typ' = Some String, value' = str ''{a:1}''\<rparr> \<and>
   \<not> IsNull \<lparr>typ' = Some String, value' = str ''{a:1}''\<rparr> \<and>
   Value_As \<lparr>typ' = Some String, value' = str ''{a:1}''\<rparr> = Inr ''{a:1}'' \<and>
   \<not> json_Valid ''{a:1}'' \<and>
   Validate json_Valid unexpanded Value_As \<lparr>StringType = ()\<rparr>
     \<lparr>typ' = Some String, value' = str ''{a:1}''\<rparr> [PathStepAttributeName ''body''] =
     [\<lparr>severity = SeverityError,
       summary = ''Invalid JSON String Value'',
       detail = ''A string value was provided that is not valid JSON string format (RFC 7159).\<newline>\<newline>Given Value: {a:1}\<newline>'',
       path' = Some [PathStepAttributeName ''body'']\<rparr>]\<close>
proof -
  let ?v = \<open>\<lparr>typ' = Some String, value' = str ''{a:1}''\<rparr>\<close>
  have h1: "typ' ?v = Some String" by simp
  have h2: "IsKnown ?v" by (simp add: IsKnown_def)
  have h3: "\<not> IsNull ?v" by (simp add: IsNull_def)
  have h4: \<open>Value_As ?v = Inr ''{a:1}''\<close>
    by (simp add: Value_As_def IsKnown_def IsNull_def)
  have h5: \<open>\<not> json_Valid ''{a:1}''\<close> by code_simp
  from Validate_invalid_json [where valid = json_Valid and As = Value_As and inp = ?v,
      OF h1 h2 h3 h4 h5, of unexpanded "\<lparr>StringType = ()\<rparr>" "[PathStepAttributeName ''body'']"]
    h1 h2 h3 h4 h5
  show ?thesis by simp
qed

text \<open>
  C3. A wire value that carries no type information at all, or whose declared type is
  the string primitive and which is unknown or null, validates with no diagnostics,
  whatever its raw data, the JSON-syntax check and the extraction are.
\<close>

theorem Validate_nothing_to_check:
  assumes "typ' inp = None \<or> (typ' inp = Some String \<and> (\<not> IsKnown inp \<or> IsNull inp))"
  shows "Validate valid Error As t inp path = []"
  using assms by (auto simp add: Validate_def Is_def)

text \<open>
  A typeless value with a payload that is not JSON, an unknown string and a null string.
\<close>

theorem Validate_nothing_to_check_witness:
  \<open>Validate json_Valid unexpanded Value_As \<lparr>StringType = ()\<rparr>
     \<lparr>typ' = None, value' = str ''{a:1}''\<rparr> [PathStepAttributeName ''body''] = [] \<and>
   Validate json_Valid unexpanded Value_As \<lparr>StringType = ()\<rparr>
     \<lparr>typ' = Some String, value' = unknown\<rparr> [PathStepAttributeName ''body''] = [] \<and>
   Validate json_Valid unexpanded Value_As \<lparr>StringType = ()\<rparr>
     \<lparr>typ' = Some String, value' = nil\<rparr> [PathStepAttributeName ''body''] = []\<close>
proof -
  have a: "typ' \<lparr>typ' = None, value' = str ''{a:1}''\<rparr> = None \<or>
           (typ' \<lparr>typ' = None, value' = str ''{a:1}''\<rparr> = Some String \<and>
            (\<not> IsKnown \<lparr>typ' = None, value' = str ''{a:1}''\<rparr> \<or> IsNull \<lparr>typ' = None, value' = str ''{a:1}''\<rparr>))"
    by simp
  have b: "typ' \<lparr>typ' = Some String, value' = unknown\<rparr> = None \<or>
           (typ' \<lparr>typ' = Some String, value' = unknown\<rparr> = Some String \<and>
            (\<not> IsKnown \<lparr>typ' = Some String, value' = unknown\<rparr> \<or> IsNull \<lparr>typ' = Some String, value' = unknown\<rparr>))"
    by (simp add: IsKnown_def)
  have c: "typ' \<lparr>typ' = Some String, value' = nil\<rparr> = None \<or>
           (typ' \<lparr>typ' = Some String, value' = nil\<rparr> = Some String \<and>
            (\<not> IsKnown \<lparr>typ' = Some String, value' = nil\<rparr> \<or> IsNull \<lparr>typ' = Some String, value' = nil\<rparr>))"
    by (simp add: IsNull_def)
  show ?thesis
    by (intro conjI Validate_nothing_to_check [OF a] Validate_nothing_to_check [OF b]
          Validate_nothing_to_check [OF c])
qed

text \<open>
  C4, as the code has it. For every wire value whose declared type is not the string
  primitive, validation returns exactly one diagnostic: an error at the given path whose
  summary is the fixed text \<^verbatim>\<open>JSON Exact Type Validation Error\<close> and whose detail is the
  fixed report-to-the-provider-developer text followed by the text of the error
  \<^verbatim>\<open>expected String value, received %T with value: %v\<close>, both verbs given the wire value.
\<close>

theorem Validate_unexpected_type:
  assumes "typ' inp = Some ty" and "ty \<noteq> String"
  shows "Validate valid Error As t inp path =
           [\<lparr>severity = SeverityError,
             summary = ''JSON Exact Type Validation Error'',
             detail = provider_error_detail @
                      Error (Errorf ''expected String value, received %T with value: %v''
                               [arg_Value inp, arg_Value inp]),
             path' = Some path\<rparr>]"
  using assms
  by (simp add: Validate_def Is_def AddAttributeError_def NewAttributeErrorDiagnostic_def)

text \<open>
  A list of strings where a string is expected.
\<close>

theorem Validate_unexpected_type_witness:
  "typ' \<lparr>typ' = Some (List String), value' = elems [str ''[]'']\<rparr> = Some (List String) \<and>
   List String \<noteq> String \<and>
   Validate json_Valid unexpanded Value_As \<lparr>StringType = ()\<rparr>
     \<lparr>typ' = Some (List String), value' = elems [str ''[]'']\<rparr> [PathStepAttributeName ''body''] =
     [\<lparr>severity = SeverityError,
       summary = ''JSON Exact Type Validation Error'',
       detail = ''An unexpected error was encountered trying to validate an attribute value. This is always an error in the provider. Please report the following to the provider developer:\<newline>\<newline>expected String value, received %T with value: %v'',
       path' = Some [PathStepAttributeName ''body'']\<rparr>]"
proof -
  let ?v = "\<lparr>typ' = Some (List String), value' = elems [str ''[]'']\<rparr>"
  have h1: "typ' ?v = Some (List String)" by simp
  have h2: "List String \<noteq> String" by simp
  from Validate_unexpected_type [where inp = ?v, OF h1 h2, of json_Valid unexpanded Value_As
      "\<lparr>StringType = ()\<rparr>" "[PathStepAttributeName ''body'']"]
  show ?thesis by (simp add: provider_error_detail_def unexpanded_def)
qed

text \<open>
  C4, as the claim states it, fails: for a number where a string is expected, the
  summary of the diagnostic is not the text \<^verbatim>\<open>Validation Error\<close>.
\<close>

theorem Validate_category_counterexample:
  "map summary
     (Validate json_Valid unexpanded Value_As \<lparr>StringType = ()\<rparr>
        \<lparr>typ' = Some Number, value' = num 1\<rparr> [PathStepAttributeName ''body''])
   \<noteq> [''Validation Error'']"
  by (simp add: Validate_def Is_def AddAttributeError_def NewAttributeErrorDiagnostic_def)

text \<open>
  C9. For every wire value and path, validation returns no diagnostic or exactly one:
  every branch that adds a diagnostic adds it to the empty collection and returns.
\<close>

theorem Validate_at_most_one: "length (Validate valid Error As t inp path) \<le> 1"
  by (simp add: Validate_def AddAttributeError_def split: option.splits sum.splits)

text \<open>
  Both sizes occur: none for the string \<^verbatim>\<open>null\<close>, one for a boolean where a string is
  expected.
\<close>

theorem Validate_at_most_one_witness:
  "length (Validate json_Valid unexpanded Value_As \<lparr>StringType = ()\<rparr>
             \<lparr>typ' = Some String, value' = str ''null''\<rparr> []) \<le> 1 \<and>
   length (Validate json_Valid unexpanded Value_As \<lparr>StringType = ()\<rparr>
             \<lparr>typ' = Some Bool, value' = boolean True\<rparr> []) \<le> 1"
  by (intro conjI Validate_at_most_one)

subsection \<open>Type equality\<close>

text \<open>
  C5. \<open>Equal\<close> holds exactly when the other descriptor is of the kind \<open>ExactType\<close> and
  the embedded generic string-type descriptors are equal; it is false for a descriptor of
  any other kind; and with the equality of the generic string-type descriptor, any two
  \<open>ExactType\<close> descriptors are equal.
\<close>

theorem Equal_same_kind:
  "(Equal base_Equal t other \<longleftrightarrow>
      (\<exists>other'. other = ExactType_t other' \<and>
                base_Equal (StringType t) (StringType_t (StringType other')))) \<and>
   ((\<forall>other'. other \<noteq> ExactType_t other') \<longrightarrow> \<not> Equal base_Equal t other) \<and>
   Equal StringType_Equal t (ExactType_t t')"
  by (cases other) (simp_all add: Equal_def StringType_Equal_def)

text \<open>
  Two descriptors built independently are equal; the descriptor is not equal to the
  normalized JSON type, to the generic string type or to an unrelated type.
\<close>

theorem Equal_same_kind_witness:
  "Equal StringType_Equal \<lparr>StringType = ()\<rparr> (ExactType_t \<lparr>StringType = ()\<rparr>) \<and>
   \<not> Equal StringType_Equal \<lparr>StringType = ()\<rparr> (NormalizedType_t ()) \<and>
   \<not> Equal StringType_Equal \<lparr>StringType = ()\<rparr> (StringType_t ()) \<and>
   \<not> Equal StringType_Equal \<lparr>StringType = ()\<rparr> (other_t ''basetypes.BoolType'')"
  using Equal_same_kind [of StringType_Equal "\<lparr>StringType = ()\<rparr>" "NormalizedType_t ()" "\<lparr>StringType = ()\<rparr>"]
    Equal_same_kind [of StringType_Equal "\<lparr>StringType = ()\<rparr>" "StringType_t ()" "\<lparr>StringType = ()\<rparr>"]
    Equal_same_kind [of StringType_Equal "\<lparr>StringType = ()\<rparr>" "other_t ''basetypes.BoolType''" "\<lparr>StringType = ()\<rparr>"]
  by simp

subsection \<open>Conversion\<close>

text \<open>
  C6. \<open>ValueFromString\<close> is total and validates nothing: for every generic string value,
  null, unknown or concrete with any payload, it returns no diagnostics and the value
  holder wrapping exactly that generic string value.
\<close>

theorem ValueFromString_wraps:
  "ValueFromString t inp = (Exact_v \<lparr>StringValue = inp\<rparr>, []) \<and>
   \<not> HasError (snd (ValueFromString t inp))"
  by (simp add: ValueFromString_def)

text \<open>
  C7. The typed value wraps exactly the generic string value that the generic string
  type's conversion returned; with that conversion as the specification describes it, a
  wire value holding the concrete string \<open>s\<close> converts to the value holder whose string read
  back is \<open>s\<close>, and two different strings convert to two different typed values.
\<close>

theorem ValueFromTerraform_exact_payload:
  "(ValueFromTerraform base t inp = (Some v, None) \<longrightarrow>
      (\<exists>sv. base (StringType t) inp = (Some (StringValue_v sv), None) \<and>
            v = Exact_v \<lparr>StringValue = sv\<rparr>)) \<and>
   ValueFromTerraform StringType_ValueFromTerraform t \<lparr>typ' = ty, value' = str s\<rparr> =
     (Some (Exact_v \<lparr>StringValue = NewStringValue s\<rparr>), None) \<and>
   ValueString (NewStringValue s) = s \<and>
   (s \<noteq> s' \<longrightarrow>
      ValueFromTerraform StringType_ValueFromTerraform t \<lparr>typ' = ty, value' = str s\<rparr> \<noteq>
      ValueFromTerraform StringType_ValueFromTerraform t \<lparr>typ' = ty, value' = str s'\<rparr>)"
  by (auto simp add: ValueFromTerraform_def ValueFromString_def StringType_ValueFromTerraform_def
        Value_As_def IsKnown_def IsNull_def
      split: prod.splits option.splits attr_Value.splits if_splits)

text \<open>
  The strings \<^verbatim>\<open>{"a":1}\<close> and \<^verbatim>\<open> { "a" : 1 } \<close> are both valid JSON, and are two
  different typed values.
\<close>

theorem ValueFromTerraform_exact_payload_witness:
  \<open>json_Valid ''{"a":1}'' \<and> json_Valid '' { "a" : 1 } '' \<and>
   ValueFromTerraform StringType_ValueFromTerraform \<lparr>StringType = ()\<rparr>
     \<lparr>typ' = Some String, value' = str ''{"a":1}''\<rparr> =
     (Some (Exact_v \<lparr>StringValue = NewStringValue ''{"a":1}''\<rparr>), None) \<and>
   ''{"a":1}'' \<noteq> '' { "a" : 1 } '' \<and>
   ValueFromTerraform StringType_ValueFromTerraform \<lparr>StringType = ()\<rparr>
     \<lparr>typ' = Some String, value' = str ''{"a":1}''\<rparr> \<noteq>
   ValueFromTerraform StringType_ValueFromTerraform \<lparr>StringType = ()\<rparr>
     \<lparr>typ' = Some String, value' = str '' { "a" : 1 } ''\<rparr>\<close>
proof -
  have v1: \<open>json_Valid ''{"a":1}''\<close> by code_simp
  have v2: \<open>json_Valid '' { "a" : 1 } ''\<close> by code_simp
  have ne: \<open>''{"a":1}'' \<noteq> '' { "a" : 1 } ''\<close> by simp
  from ValueFromTerraform_exact_payload [of StringType_ValueFromTerraform "\<lparr>StringType = ()\<rparr>"
      \<open>\<lparr>typ' = Some String, value' = str ''{"a":1}''\<rparr>\<close>
      \<open>Exact_v \<lparr>StringValue = NewStringValue ''{"a":1}''\<rparr>\<close>
      "Some String" \<open>''{"a":1}''\<close> \<open>'' { "a" : 1 } ''\<close>] v1 v2 ne
  show ?thesis by blast
qed

text \<open>
  C8. Whenever the generic string type's conversion returns an error, the conversion
  returns that same error and no value.
\<close>

theorem ValueFromTerraform_propagates:
  assumes "snd (base (StringType t) inp) = Some err"
  shows "ValueFromTerraform base t inp = (None, Some err)"
  using assms by (cases "base (StringType t) inp") (simp add: ValueFromTerraform_def)

text \<open>
  A wire value declared a string whose raw data is a number: the extraction fails in the
  generic conversion, and the failure comes back unchanged.
\<close>

theorem ValueFromTerraform_propagates_witness:
  "snd (StringType_ValueFromTerraform (StringType \<lparr>StringType = ()\<rparr>)
         \<lparr>typ' = Some String, value' = num 1\<rparr>) =
     Some (extraction_failure \<lparr>typ' = Some String, value' = num 1\<rparr>) \<and>
   ValueFromTerraform StringType_ValueFromTerraform \<lparr>StringType = ()\<rparr>
     \<lparr>typ' = Some String, value' = num 1\<rparr> =
     (None, Some (extraction_failure \<lparr>typ' = Some String, value' = num 1\<rparr>))"
proof -
  have h: "snd (StringType_ValueFromTerraform (StringType \<lparr>StringType = ()\<rparr>)
                 \<lparr>typ' = Some String, value' = num 1\<rparr>) =
           Some (extraction_failure \<lparr>typ' = Some String, value' = num 1\<rparr>)"
    by (simp add: StringType_ValueFromTerraform_def Value_As_def IsKnown_def IsNull_def)
  show ?thesis
    by (intro conjI h ValueFromTerraform_propagates
          [where base = StringType_ValueFromTerraform and t = "\<lparr>StringType = ()\<rparr>", OF h])
qed

text \<open>
  C10. \<open>ValueFromString\<close> never returns an error diagnostic, so the conversion succeeds
  whenever the generic conversion returns a generic string value without an error; it
  fails only with the error of the generic conversion, or with the type-assertion error
  when the generic conversion returned no error and something that is not a generic
  string value.
\<close>

theorem ValueFromTerraform_failure_causes:
  "\<not> HasError (snd (ValueFromString t sv)) \<and>
   (base (StringType t) inp = (Some (StringValue_v sv), None) \<longrightarrow>
      ValueFromTerraform base t inp = (Some (Exact_v \<lparr>StringValue = sv\<rparr>), None)) \<and>
   (snd (ValueFromTerraform base t inp) = Some err \<longrightarrow>
      snd (base (StringType t) inp) = Some err \<or>
      (snd (base (StringType t) inp) = None \<and>
       (\<forall>sv'. fst (base (StringType t) inp) \<noteq> Some (StringValue_v sv')) \<and>
       err = Errorf ''unexpected value type of %T''
               [arg_attr_Value (fst (base (StringType t) inp))]))"
  by (auto simp add: ValueFromTerraform_def ValueFromString_def
      split: prod.splits option.splits attr_Value.splits if_splits)

text \<open>
  An unknown wire value converts to the value holder of the unknown string; a wire value
  declared a string whose raw data is a boolean fails with the error of the generic
  conversion.
\<close>

theorem ValueFromTerraform_failure_causes_witness:
  "StringType_ValueFromTerraform (StringType \<lparr>StringType = ()\<rparr>)
     \<lparr>typ' = Some String, value' = unknown\<rparr> = (Some (StringValue_v NewStringUnknown), None) \<and>
   ValueFromTerraform StringType_ValueFromTerraform \<lparr>StringType = ()\<rparr>
     \<lparr>typ' = Some String, value' = unknown\<rparr> =
     (Some (Exact_v \<lparr>StringValue = NewStringUnknown\<rparr>), None) \<and>
   snd (ValueFromTerraform StringType_ValueFromTerraform \<lparr>StringType = ()\<rparr>
          \<lparr>typ' = Some String, value' = boolean True\<rparr>) =
     Some (extraction_failure \<lparr>typ' = Some String, value' = boolean True\<rparr>) \<and>
   snd (StringType_ValueFromTerraform (StringType \<lparr>StringType = ()\<rparr>)
          \<lparr>typ' = Some String, value' = boolean True\<rparr>) =
     Some (extraction_failure \<lparr>typ' = Some String, value' = boolean True\<rparr>)"
proof -
  have a: "StringType_ValueFromTerraform (StringType \<lparr>StringType = ()\<rparr>)
             \<lparr>typ' = Some String, value' = unknown\<rparr> = (Some (StringValue_v NewStringUnknown), None)"
    by (simp add: StringType_ValueFromTerraform_def IsKnown_def)
  have b: "snd (ValueFromTerraform StringType_ValueFromTerraform \<lparr>StringType = ()\<rparr>
                  \<lparr>typ' = Some String, value' = boolean True\<rparr>) =
           Some (extraction_failure \<lparr>typ' = Some String, value' = boolean True\<rparr>)"
    by (simp add: ValueFromTerraform_def StringType_ValueFromTerraform_def Value_As_def
          IsKnown_def IsNull_def)
  from ValueFromTerraform_failure_causes [of "\<lparr>StringType = ()\<rparr>" NewStringUnknown
      StringType_ValueFromTerraform "\<lparr>typ' = Some String, value' = unknown\<rparr>"] a
  have c: "ValueFromTerraform StringType_ValueFromTerraform \<lparr>StringType = ()\<rparr>
             \<lparr>typ' = Some String, value' = unknown\<rparr> =
           (Some (Exact_v \<lparr>StringValue = NewStringUnknown\<rparr>), None)"
    by blast
  from ValueFromTerraform_failure_causes [of "\<lparr>StringType = ()\<rparr>" NewStringUnknown
      StringType_ValueFromTerraform "\<lparr>typ' = Some String, value' = boolean True\<rparr>"
      "extraction_failure \<lparr>typ' = Some String, value' = boolean True\<rparr>"] b
  have d: "snd (StringType_ValueFromTerraform (StringType \<lparr>StringType = ()\<rparr>)
                  \<lparr>typ' = Some String, value' = boolean True\<rparr>) =
           Some (extraction_failure \<lparr>typ' = Some String, value' = boolean True\<rparr>)"
    by simp
  from a b c d show ?thesis by blast
qed

end
